theory Spec2Isabelle
  imports Main "HOL-Library.Sublist" "HOL-Library.Log_Nat"
begin

section \<open>Python strings\<close>

text \<open>
  A Python \<open>str\<close> is a sequence of Unicode code points, so a string is modelled as a
  list of code points (natural numbers); \<open>u\<close> embeds an ASCII literal.
\<close>

type_synonym pystr = "nat list"

definition u :: "string \<Rightarrow> pystr" where
  "u s = map of_char s"

text \<open>
  \<open>str.isspace\<close> for one code point: the characters that \<open>str.split()\<close> and
  \<open>str.strip()\<close> treat as whitespace.
\<close>

definition is_space :: "nat \<Rightarrow> bool" where
  "is_space c \<longleftrightarrow>
     (9 \<le> c \<and> c \<le> 13) \<or> (28 \<le> c \<and> c \<le> 32) \<or> c = 133 \<or> c = 160 \<or> c = 5760 \<or>
     (8192 \<le> c \<and> c \<le> 8202) \<or> c = 8232 \<or> c = 8233 \<or> c = 8239 \<or> c = 8287 \<or>
     c = 12288"

text \<open>\<open>s.split()\<close>: the maximal runs of non-whitespace, in order.\<close>

fun split_aux :: "pystr \<Rightarrow> pystr \<Rightarrow> pystr list" where
  "split_aux w [] = (if w = [] then [] else [w])"
| "split_aux w (c # cs) =
     (if is_space c then (if w = [] then split_aux [] cs else w # split_aux [] cs)
      else split_aux (w @ [c]) cs)"

definition split_ws :: "pystr \<Rightarrow> pystr list" where
  "split_ws s = split_aux [] s"

text \<open>\<open>sep.join(ws)\<close>.\<close>

fun join :: "pystr \<Rightarrow> pystr list \<Rightarrow> pystr" where
  "join sep [] = []"
| "join sep [w] = w"
| "join sep (w # ws) = w @ sep @ join sep ws"

text \<open>\<open>s.strip()\<close>.\<close>

definition strip :: "pystr \<Rightarrow> pystr" where
  "strip s = rev (dropWhile is_space (rev (dropWhile is_space s)))"

text \<open>
  \<open>s.replace(old, new)\<close> for a non-empty \<open>old\<close> (the only use in the source): the
  occurrences are replaced from the left, without overlap.
\<close>

fun replace :: "pystr \<Rightarrow> pystr \<Rightarrow> pystr \<Rightarrow> pystr" where
  "replace old new [] = []"
| "replace old new (c # cs) =
     (if old \<noteq> [] \<and> prefix old (c # cs)
      then new @ replace old new (drop (length old) (c # cs))
      else c # replace old new cs)"

text \<open>\<open>sub in s\<close>: \<open>sub\<close> occurs in \<open>s\<close> as a contiguous run.\<close>

fun contains :: "pystr \<Rightarrow> pystr \<Rightarrow> bool" where
  "contains sub [] = (sub = [])"
| "contains sub (c # cs) = (prefix sub (c # cs) \<or> contains sub cs)"

text \<open>\<open>s.split(sep)\<close> for a separator of one character.\<close>

fun split_on :: "nat \<Rightarrow> pystr \<Rightarrow> pystr list" where
  "split_on sep [] = [[]]"
| "split_on sep (c # cs) =
     (if c = sep then [] # split_on sep cs
      else (case split_on sep cs of w # ws \<Rightarrow> (c # w) # ws | [] \<Rightarrow> [[c]]))"

text \<open>
  \<open>xs[i:j]\<close> on a list or string, with Python's treatment of negative and
  out-of-range bounds.
\<close>

definition slice :: "'a list \<Rightarrow> int \<Rightarrow> int \<Rightarrow> 'a list" where
  "slice xs i j =
     (let n = int (length xs);
          a = (if i < 0 then max 0 (n + i) else min i n);
          b = (if j < 0 then max 0 (n + j) else min j n)
      in take (nat (b - a)) (drop (nat a) xs))"

text \<open>\<open>s.find(sub, start)\<close> for \<open>0 \<le> start\<close>: the first index at or after \<open>start\<close>
  where \<open>sub\<close> occurs, or \<open>-1\<close>.\<close>

fun find_from :: "pystr \<Rightarrow> pystr \<Rightarrow> nat \<Rightarrow> int" where
  "find_from sub [] k = (if sub = [] then int k else -1)"
| "find_from sub (c # cs) k =
     (if prefix sub (c # cs) then int k else find_from sub cs (Suc k))"

definition str_find :: "pystr \<Rightarrow> pystr \<Rightarrow> nat \<Rightarrow> int" where
  "str_find s sub start = (if length s < start then -1 else find_from sub (drop start s) start)"

text \<open>\<open>str(n)\<close> for an integer: its decimal digits, with a minus sign when negative.\<close>

function str_nat :: "nat \<Rightarrow> pystr" where
  "str_nat n = (if n < 10 then [48 + n] else str_nat (n div 10) @ [48 + n mod 10])"
  by pat_completeness auto
termination
  by (relation "measure id") auto

definition str_int :: "int \<Rightarrow> pystr" where
  "str_int i = (if i < 0 then 45 # str_nat (nat (- i)) else str_nat (nat i))"

section \<open>Python floats\<close>

text \<open>
  A finite Python \<open>float\<close> is an IEEE 754 binary64 number and is modelled by its exact
  rational value. \<open>fl\<close> rounds a rational to the nearest binary64 number, ties to the
  even significand, with gradual underflow; this is the rounding of \<open>int / int\<close>, of
  \<open>float * float\<close> and of a decimal literal. All floats of this program lie between
  0 and 100, far from overflow.
\<close>

definition round_half_even :: "rat \<Rightarrow> int" where
  "round_half_even x =
     (let f = \<lfloor>x\<rfloor>; r = x - of_int f
      in if r < 1 / 2 then f else if 1 / 2 < r then f + 1 else if even f then f else f + 1)"

text \<open>For \<open>0 < x\<close>, the exponent \<open>e\<close> with \<open>2 powi e \<le> x < 2 powi (e + 1)\<close>.\<close>

definition binade :: "rat \<Rightarrow> int" where
  "binade x =
     (let (p, q) = quotient_of x; d = bitlen p - bitlen q
      in if of_int q * 2 powi d \<le> (of_int p :: rat) then d else d - 1)"

definition fl :: "rat \<Rightarrow> rat" where
  "fl x =
     (if x = 0 then 0
      else let e = max (binade \<bar>x\<bar>) (- 1022); ulp = 2 powi (e - 52)
           in sgn x * of_int (round_half_even (\<bar>x\<bar> / ulp)) * ulp)"

text \<open>\<open>m / n\<close> on integers \<open>0 \<le> m\<close>, \<open>0 < n\<close>: the correctly rounded quotient.\<close>

definition truediv :: "nat \<Rightarrow> nat \<Rightarrow> rat" where
  "truediv m n = fl (of_nat m / of_nat n)"

text \<open>
  \<open>f"{x:.0%}"\<close> for \<open>0 \<le> x\<close>: the float is multiplied by 100 (a float multiplication),
  the product is printed with no decimals (rounded to the nearest integer, ties to even),
  and a percent sign is appended.
\<close>

definition format_percent :: "rat \<Rightarrow> pystr" where
  "format_percent x = str_int (round_half_even (fl (x * 100))) @ [37]"

section \<open>Builtins taken as parameters\<close>

text \<open>
  A value returned by \<open>json.loads\<close>. A float is held by its exact value; the three
  non-finite floats that \<open>json.loads\<close> can return have constructors of their own.
  A dict is a list of key-value pairs with distinct keys.
\<close>

datatype json =
  JNull | JBool bool | JInt int | JFloat rat | JInf | JNegInf | JNaN
  | JStr pystr | JList "json list" | JDict "(pystr \<times> json) list"

text \<open>The exceptions of this program that no handler catches.\<close>

datatype py_error = TypeError | AttributeError | ValueError

text \<open>
  The tables and parsers of the Python runtime that the validator calls and that are not
  part of the repository: \<open>str.lower\<close> (the Unicode case mapping), the decimal value of
  a Unicode digit (used by \<open>int\<close>, \<open>float\<close> and the \<open>\d\<close> of a regular
  expression), \<open>json.loads\<close> (\<open>None\<close> when it raises), the limit on the number of
  digits that \<open>int\<close> converts (\<open>sys.get_int_max_str_digits()\<close>, 4300 by default from
  CPython 3.11 on, 0 for no limit), and the text that an f-string prints for a value that
  is not a string (\<open>None\<close> when the conversion raises ValueError, as it does on an
  integer beyond the digit limit). Every function below takes them as the parameter \<open>B\<close>.
\<close>

record builtins =
  str_lower :: "pystr \<Rightarrow> pystr"
  decimal_digit :: "nat \<Rightarrow> nat option"
  json_loads :: "pystr \<Rightarrow> json option"
  int_max_str_digits :: nat
  py_str :: "json \<Rightarrow> pystr option"

text \<open>
  \<open>int(s)\<close> for a string, \<open>None\<close> for ValueError: surrounding whitespace is
  dropped (\<open>int\<close> does not count the separators U+001C to U+001F as whitespace), then
  an optional sign, then decimal digits with single underscores between them; more digits
  than the limit are refused.
\<close>

definition int_space :: "nat \<Rightarrow> bool" where
  "int_space c \<longleftrightarrow> is_space c \<and> \<not> (28 \<le> c \<and> c \<le> 31)"

fun int_digits :: "builtins \<Rightarrow> pystr \<Rightarrow> nat \<Rightarrow> bool \<Rightarrow> nat option" where
  "int_digits B [] acc after_digit = (if after_digit then Some acc else None)"
| "int_digits B (c # cs) acc after_digit =
     (if c = 95 then (if after_digit then int_digits B cs acc False else None)
      else (case decimal_digit B c of
              Some d \<Rightarrow> int_digits B cs (acc * 10 + d) True
            | None \<Rightarrow> None))"

definition within_digit_limit :: "builtins \<Rightarrow> pystr \<Rightarrow> bool" where
  "within_digit_limit B body \<longleftrightarrow>
     int_max_str_digits B = 0 \<or> length (filter (\<lambda>c. c \<noteq> 95) body) \<le> int_max_str_digits B"

definition py_int :: "builtins \<Rightarrow> pystr \<Rightarrow> int option" where
  "py_int B s =
     (case rev (dropWhile int_space (rev (dropWhile int_space s))) of
        [] \<Rightarrow> None
      | c # cs \<Rightarrow>
          if c = 43 then
            (if within_digit_limit B cs then map_option int (int_digits B cs 0 False) else None)
          else if c = 45 then
            (if within_digit_limit B cs
             then map_option (\<lambda>n. - int n) (int_digits B cs 0 False) else None)
          else
            (if within_digit_limit B (c # cs)
             then map_option int (int_digits B (c # cs) 0 False) else None))"

section \<open>Data model\<close>

text \<open>
  The dataclass \<open>ValidationResult\<close>, with the defaults of its declaration. The fields
  \<open>claim\<close> and \<open>actual_line_range\<close> receive values of the fact as they are, so they
  hold JSON values; the other texts are built by the validator and are strings.
\<close>

record ValidationResult =
  fact_index :: int
  claim :: json
  is_valid :: bool
  error_message :: pystr
  actual_line_range :: json
  quote_snippet :: pystr
  was_recovered :: bool
  corrected_quote :: "pystr option"
  corrected_location :: "pystr option"

text \<open>
  A fact is an element of a list read by \<open>json.load\<close>, so it is any JSON value; the
  validator reads it with \<open>fact.get\<close>, which needs a dict.

  The completion service: \<open>claude_client.prompt(prompt, max_tokens)\<close> returns a text or
  raises. The validator object holds the lines of the source text (each with its line
  terminator, as \<open>readlines\<close> gives them) and the optional client.
\<close>

datatype reply = Raised | Returned pystr

record validator =
  lines :: "pystr list"
  claude_client :: "(pystr \<Rightarrow> nat \<Rightarrow> reply) option"

section \<open>FactValidator\<close>

subsection \<open>parse_line_range\<close>

text \<open>
  \<open>None\<close> stands for the exception the body raises (ValueError from \<open>int\<close> or from
  unpacking a split that has not exactly two parts); \<open>validate_fact\<close> catches it.
\<close>

definition parse_line_range :: "builtins \<Rightarrow> pystr \<Rightarrow> (int \<times> int) option" where
  "parse_line_range B location =
     (let location = strip (replace (u ''Line'') [] (replace (u ''Lines'') [] location))
      in if contains (u ''-'') location
         then (case split_on 45 location of
                 [start, end] \<Rightarrow>
                   (case py_int B (strip start) of
                      None \<Rightarrow> None
                    | Some s \<Rightarrow>
                        (case py_int B (strip end) of
                           None \<Rightarrow> None
                         | Some e \<Rightarrow> Some (s, e)))
               | _ \<Rightarrow> None)
         else (case py_int B (strip location) of
                 None \<Rightarrow> None
               | Some line_num \<Rightarrow> Some (line_num, line_num)))"

subsection \<open>normalize_text\<close>

text \<open>
  The two lines under the comment "Normalize various quote types" read, as Python
  tokenises them, \<open>text.replace(""", '"').replace(""", '"')\<close>, which is one call that
  replaces the 15-character string \<open>, '"').replace(\<close> by a double quote, and
  \<open>text.replace("'", "'").replace("'", "'")\<close>, which replaces the apostrophe by itself
  twice. The last replacements delete a space before or after an en dash (U+2013).
\<close>

definition normalize_text :: "pystr \<Rightarrow> pystr" where
  "normalize_text text =
     (let text = join (u '' '') (split_ws text);
          text = replace ([44, 32, 39, 34, 39, 41] @ u ''.replace('') [34] text;
          text = replace [39] [39] (replace [39] [39] text);
          text = replace [8211, 32] [8211] (replace [32, 8211] [8211] text)
      in strip text)"

subsection \<open>get_line_text\<close>

definition get_line_text :: "validator \<Rightarrow> int \<Rightarrow> int \<Rightarrow> pystr" where
  "get_line_text self start_line end_line =
     (let start_idx = start_line - 1;
          end_idx = end_line;
          start_idx = max 0 start_idx;
          end_idx = min (int (length (lines self))) end_idx
      in concat (slice (lines self) start_idx end_idx))"

subsection \<open>find_quote_in_text\<close>

text \<open>The loop over \<open>text_words\<close>, with its two counters.\<close>

fun match_words :: "builtins \<Rightarrow> pystr list \<Rightarrow> pystr list \<Rightarrow> nat \<Rightarrow> nat \<Rightarrow> nat \<times> nat" where
  "match_words B quote_words [] quote_idx matched_words = (quote_idx, matched_words)"
| "match_words B quote_words (text_word # text_words) quote_idx matched_words =
     (if quote_idx < length quote_words
         \<and> str_lower B text_word = str_lower B (quote_words ! quote_idx)
      then match_words B quote_words text_words (quote_idx + 1) (matched_words + 1)
      else match_words B quote_words text_words quote_idx matched_words)"

definition match_ratio :: "builtins \<Rightarrow> pystr \<Rightarrow> pystr \<Rightarrow> rat" where
  "match_ratio B normalized_quote normalized_text =
     (let quote_words = split_ws normalized_quote;
          text_words = split_ws normalized_text;
          matched_words = snd (match_words B quote_words text_words 0 0)
      in if quote_words \<noteq> [] then truediv matched_words (length quote_words) else 0)"

definition find_quote_in_text :: "builtins \<Rightarrow> pystr \<Rightarrow> pystr \<Rightarrow> bool \<times> pystr" where
  "find_quote_in_text B quote text =
     (let normalized_quote = normalize_text quote;
          normalized_text = normalize_text text
      in if contains normalized_quote normalized_text then (True, u ''exact match'')
         else let ratio = match_ratio B normalized_quote normalized_text
              in if fl (7 / 10) \<le> ratio
                 then (True, u ''partial match ('' @ format_percent ratio @ u '')'')
                 else (False, u ''not found (only '' @ format_percent ratio @ u '' match)''))"

subsection \<open>attempt_fact_recovery\<close>

definition recovery_prompt :: "pystr \<Rightarrow> pystr \<Rightarrow> pystr \<Rightarrow> int \<Rightarrow> int \<Rightarrow> pystr" where
  "recovery_prompt claim_text original_quote search_context start_line end_line =
     u ''You are helping recover a fact that was extracted but the evidence quote couldn'' @
     [39] @ u ''t be validated.'' @ [10, 10] @ u ''**Claim**: '' @ claim_text @ [10, 10] @
     u ''**Original Quote (not found)**: '' @ original_quote @ [10, 10] @
     u ''**Context** (Lines '' @ str_int start_line @ u ''-'' @ str_int end_line @ u ''):'' @
     [10] @ search_context @ [10, 10] @ u ''Your task:'' @ [10] @
     u ''1. Search the context for text that DIRECTLY supports the claim'' @ [10] @
     u ''2. Extract the EXACT quote (word-for-word) from the context'' @ [10] @
     u ''3. Identify the approximate line numbers where the quote appears'' @ [10, 10] @
     u ''Respond with ONLY a JSON object:'' @ [10] @ [123] @ [10] @ u ''  '' @ [34] @
     u ''found'' @ [34] @ u '': true/false,'' @ [10] @ u ''  '' @ [34] @ u ''quote'' @ [34] @
     u '': '' @ [34] @ u ''exact quote from context if found'' @ [34] @ u '','' @ [10] @
     u ''  '' @ [34] @ u ''confidence'' @ [34] @ u '': 0.0-1.0,'' @ [10] @ u ''  '' @ [34] @
     u ''reasoning'' @ [34] @ u '': '' @ [34] @ u ''brief explanation'' @ [34, 10] @ [125] @
     [10, 10] @ u ''If the claim is NOT supported by this context, set found to false.'' @ [10]"

text \<open>The interior of a fenced block of the response, or the response itself.\<close>

definition extract_json :: "pystr \<Rightarrow> pystr" where
  "extract_json response =
     (if contains ([96, 96, 96] @ u ''json'') response
      then let json_start = str_find response ([96, 96, 96] @ u ''json'') 0 + 7;
               json_end = str_find response [96, 96, 96] (nat json_start)
           in strip (slice response json_start json_end)
      else if contains [96, 96, 96] response
      then let json_start = str_find response [96, 96, 96] 0 + 3;
               json_end = str_find response [96, 96, 96] (nat json_start)
           in strip (slice response json_start json_end)
      else response)"

text \<open>Truth value of a JSON value in a condition.\<close>

fun truthy :: "json \<Rightarrow> bool" where
  "truthy JNull = False"
| "truthy (JBool b) = b"
| "truthy (JInt i) = (i \<noteq> 0)"
| "truthy (JFloat x) = (x \<noteq> 0)"
| "truthy JInf = True"
| "truthy JNegInf = True"
| "truthy JNaN = True"
| "truthy (JStr s) = (s \<noteq> [])"
| "truthy (JList xs) = (xs \<noteq> [])"
| "truthy (JDict d) = (d \<noteq> [])"

text \<open>\<open>v >= 0.8\<close>; \<open>None\<close> is the TypeError of comparing a non-number with a float.\<close>

fun ge_0_8 :: "json \<Rightarrow> bool option" where
  "ge_0_8 (JBool b) = Some b"
| "ge_0_8 (JInt i) = Some (1 \<le> i)"
| "ge_0_8 (JFloat x) = Some (fl (8 / 10) \<le> x)"
| "ge_0_8 JInf = Some True"
| "ge_0_8 JNegInf = Some False"
| "ge_0_8 JNaN = Some False"
| "ge_0_8 v = None"

text \<open>
  The log message of the success branch formats the confidence with \<open>:.0%\<close>; on an
  integer too large for a float this raises OverflowError.
\<close>

fun format_raises :: "json \<Rightarrow> bool" where
  "format_raises (JInt i) = (2 ^ 1024 - 2 ^ 970 \<le> i)"
| "format_raises v = False"

text \<open>
  The \<open>try\<close> block of \<open>attempt_fact_recovery\<close>. \<open>None\<close> is the result \<open>None\<close>
  of the source, returned when the reply does not qualify and by the handler of every
  exception of the block.
\<close>

definition try_recovery ::
  "builtins \<Rightarrow> (pystr \<Rightarrow> nat \<Rightarrow> reply) \<Rightarrow> pystr \<Rightarrow> pystr \<Rightarrow> int \<Rightarrow> int \<Rightarrow> (pystr \<times> pystr) option" where
  "try_recovery B client prompt search_context start_line end_line =
     (case client prompt 1000 of
        Raised \<Rightarrow> None
      | Returned response \<Rightarrow>
          (case json_loads B (extract_json response) of
             Some (JDict result) \<Rightarrow>
               (if (case map_of result (u ''found'') of None \<Rightarrow> False | Some v \<Rightarrow> truthy v)
                then (case ge_0_8 (case map_of result (u ''confidence'') of
                                     None \<Rightarrow> JInt 0 | Some v \<Rightarrow> v) of
                        None \<Rightarrow> None
                      | Some False \<Rightarrow> None
                      | Some True \<Rightarrow>
                          (case map_of result (u ''quote'') of
                             Some (JStr recovered_quote) \<Rightarrow>
                               (if fst (find_quote_in_text B recovered_quote search_context)
                                then (if format_raises (the (map_of result (u ''confidence'')))
                                      then None
                                      else Some (recovered_quote,
                                             u ''Lines '' @ str_int start_line @ u ''-''
                                               @ str_int end_line))
                                else None)
                           | _ \<Rightarrow> None))
                else None)
           | _ \<Rightarrow> None))"

text \<open>
  \<open>v[:n]\<close> on a JSON value: a string and a list can be sliced, every other value
  raises TypeError. \<open>fmt\<close> is the text an f-string prints for a value.
\<close>

definition slice_json :: "json \<Rightarrow> nat \<Rightarrow> py_error + json" where
  "slice_json v n =
     (case v of
        JStr s \<Rightarrow> Inr (JStr (take n s))
      | JList xs \<Rightarrow> Inr (JList (take n xs))
      | _ \<Rightarrow> Inl TypeError)"

definition fmt :: "builtins \<Rightarrow> json \<Rightarrow> pystr option" where
  "fmt B v = (case v of JStr s \<Rightarrow> Some s | _ \<Rightarrow> py_str B v)"

text \<open>
  \<open>attempt_fact_recovery\<close>. Without a client the result is \<open>None\<close>. With one, the
  log line prints \<open>claim[:60]\<close> and the prompt prints the claim before the \<open>try\<close>
  block is entered, so their exceptions are not caught.
\<close>

definition attempt_fact_recovery ::
  "builtins \<Rightarrow> validator \<Rightarrow> json \<Rightarrow> pystr \<Rightarrow> pystr \<Rightarrow> int \<Rightarrow> int
     \<Rightarrow> py_error + (pystr \<times> pystr) option" where
  "attempt_fact_recovery B self claim_value original_quote search_context start_line end_line =
     (case claude_client self of
        None \<Rightarrow> Inr None
      | Some client \<Rightarrow>
          (case slice_json claim_value 60 of
             Inl e \<Rightarrow> Inl e
           | Inr logged \<Rightarrow>
               (case fmt B logged of
                  None \<Rightarrow> Inl ValueError
                | Some logged_text \<Rightarrow>
                    (case fmt B claim_value of
                       None \<Rightarrow> Inl ValueError
                     | Some claim_text \<Rightarrow>
                         Inr (try_recovery B client
                                (recovery_prompt claim_text original_quote search_context
                                   start_line end_line)
                                search_context start_line end_line)))))"

subsection \<open>validate_fact\<close>

text \<open>\<open>d.get(key, default)\<close> on a dict.\<close>

definition dict_get :: "(pystr \<times> json) list \<Rightarrow> pystr \<Rightarrow> json \<Rightarrow> json" where
  "dict_get d key dflt = (case map_of d key of None \<Rightarrow> dflt | Some v \<Rightarrow> v)"

text \<open>The quotes to validate: the elements of \<open>evidence_quotes\<close> when it is a non-empty
  list (of a dict its \<open>quote\<close>, every other element as it is), else the single
  \<open>evidence_quote\<close> when it is true as a condition, else none.\<close>

definition quotes_to_validate :: "(pystr \<times> json) list \<Rightarrow> json list" where
  "quotes_to_validate d =
     (case dict_get d (u ''evidence_quotes'') (JList []) of
        JList (eq0 # eqs) \<Rightarrow>
          map (\<lambda>eq. case eq of JDict e \<Rightarrow> dict_get e (u ''quote'') (JStr []) | _ \<Rightarrow> eq)
            (eq0 # eqs)
      | _ \<Rightarrow>
          let single_quote = dict_get d (u ''evidence_quote'') (JStr [])
          in if truthy single_quote then [single_quote] else [])"

text \<open>
  The first loop over the quotes calls \<open>find_quote_in_text\<close> on each, which calls
  \<open>quote.split()\<close>: a quote that is not a string raises AttributeError there.
  \<open>strings_of\<close> gives the quotes as strings, or \<open>None\<close> when one is not a string.
\<close>

fun strings_of :: "json list \<Rightarrow> pystr list option" where
  "strings_of [] = Some []"
| "strings_of (JStr s # vs) = map_option ((#) s) (strings_of vs)"
| "strings_of (v # vs) = None"

text \<open>\<open>q[:60] + "..." if len(q) > 60 else q\<close>, and the snippet of the success
  branches, which adds the number of further quotes.\<close>

definition shorten :: "pystr \<Rightarrow> pystr" where
  "shorten q = (if 60 < length q then take 60 q @ u ''...'' else q)"

definition snippet :: "pystr \<Rightarrow> pystr list \<Rightarrow> pystr" where
  "snippet q0 qs =
     (if 1 < length (q0 # qs)
      then shorten q0 @ u '' (+'' @ str_int (int (length (q0 # qs)) - 1) @ u '' more)''
      else shorten q0)"

text \<open>A \<open>ValidationResult\<close> built from its three required fields, and the
  evaluation of \<open>claim[:80]\<close> before a result is built.\<close>

definition new_result :: "int \<Rightarrow> json \<Rightarrow> bool \<Rightarrow> ValidationResult" where
  "new_result i c v =
     \<lparr>fact_index = i, claim = c, is_valid = v, error_message = [], actual_line_range = JStr [],
      quote_snippet = [], was_recovered = False, corrected_quote = None,
      corrected_location = None\<rparr>"

definition with_claim :: "json \<Rightarrow> (json \<Rightarrow> ValidationResult) \<Rightarrow> py_error + ValidationResult" where
  "with_claim claim_value build =
     (case slice_json claim_value 80 of Inl e \<Rightarrow> Inl e | Inr c \<Rightarrow> Inr (build c))"

text \<open>Chunk mode: the branch \<open>if chunk_text:\<close>.\<close>

definition validate_chunk ::
  "builtins \<Rightarrow> int \<Rightarrow> json \<Rightarrow> json \<Rightarrow> json list \<Rightarrow> pystr \<Rightarrow> py_error + ValidationResult" where
  "validate_chunk B index claim_value location quote_values chunk_text =
     (case strings_of quote_values of
        Some (q0 # qs) \<Rightarrow>
          (let quotes = q0 # qs;
               failed_quotes =
                 filter (\<lambda>quote. \<not> fst (find_quote_in_text B quote chunk_text)) quotes;
               all_valid = list_all (\<lambda>quote. fst (find_quote_in_text B quote chunk_text)) quotes
           in if all_valid
              then with_claim claim_value (\<lambda>c.
                     (new_result index c True)
                       \<lparr>actual_line_range := location, quote_snippet := snippet q0 qs\<rparr>)
              else with_claim claim_value (\<lambda>c.
                     (new_result index c False)
                       \<lparr>error_message :=
                          str_int (int (length failed_quotes)) @ u ''/''
                            @ str_int (int (length quotes)) @ u '' quotes not found in chunk'',
                        actual_line_range := location, quote_snippet := shorten q0\<rparr>))
      | _ \<Rightarrow> Inl AttributeError)"

text \<open>
  \<open>re.search(r'(\d+)%', s)\<close>: the leftmost run of decimal digits that a percent sign
  follows. The percent sign is no digit, so at each start only the longest run of digits
  can be followed by it.
\<close>

fun search_percent :: "builtins \<Rightarrow> pystr \<Rightarrow> pystr option" where
  "search_percent B [] = None"
| "search_percent B (c # cs) =
     (let digits = takeWhile (\<lambda>d. decimal_digit B d \<noteq> None) (c # cs);
          rest = dropWhile (\<lambda>d. decimal_digit B d \<noteq> None) (c # cs)
      in if digits \<noteq> [] \<and> take 1 rest = [37] then Some digits else search_percent B cs)"

text \<open>\<open>float(digits) / 100\<close> for a run of decimal digits.\<close>

definition percent_ratio :: "builtins \<Rightarrow> pystr \<Rightarrow> rat" where
  "percent_ratio B digits =
     fl (fl (of_nat (foldl (\<lambda>acc d. acc * 10 + the (decimal_digit B d)) 0 digits)) / 100)"

text \<open>The loop that reads the best ratio back from the labels of the expanded pass.\<close>

fun best_match :: "builtins \<Rightarrow> (pystr \<times> pystr) list \<Rightarrow> rat \<Rightarrow> pystr \<Rightarrow> rat \<times> pystr" where
  "best_match B [] best_match_ratio best_quote_for_recovery =
     (best_match_ratio, best_quote_for_recovery)"
| "best_match B ((quote, match_type_expanded) # rest) best_match_ratio best_quote_for_recovery =
     (if contains [37] match_type_expanded
      then (case search_percent B match_type_expanded of
              Some digits \<Rightarrow>
                (if best_match_ratio < percent_ratio B digits
                 then best_match B rest (percent_ratio B digits) quote
                 else best_match B rest best_match_ratio best_quote_for_recovery)
            | None \<Rightarrow> best_match B rest best_match_ratio best_quote_for_recovery)
      else best_match B rest best_match_ratio best_quote_for_recovery)"

text \<open>The rejection at the end of document mode.\<close>

definition rejection ::
  "int \<Rightarrow> json \<Rightarrow> pystr \<Rightarrow> pystr list \<Rightarrow> pystr list \<Rightarrow> pystr list \<Rightarrow> int \<Rightarrow> int
     \<Rightarrow> ValidationResult" where
  "rejection index c q0 qs failed_quotes expanded_match_types start_line end_line =
     (new_result index c False)
       \<lparr>error_message :=
          str_int (int (length failed_quotes)) @ u ''/'' @ str_int (int (length (q0 # qs)))
            @ u '' quotes not found in specified lines or nearby''
            @ (case expanded_match_types of
                 [] \<Rightarrow> []
               | first # _ \<Rightarrow> u '' (best match: '' @ first @ u '')''),
        actual_line_range :=
          JStr (u ''Lines '' @ str_int start_line @ u ''-'' @ str_int end_line),
        quote_snippet := shorten q0\<rparr>"

text \<open>
  Document mode after the location has parsed, for quotes \<open>q0 # qs\<close> that are strings:
  the exact pass, the expanded pass, and the recovery.
\<close>

definition validate_lines ::
  "builtins \<Rightarrow> validator \<Rightarrow> int \<Rightarrow> json \<Rightarrow> pystr \<Rightarrow> pystr list \<Rightarrow> int \<Rightarrow> int
     \<Rightarrow> py_error + ValidationResult" where
  "validate_lines B self index claim_value q0 qs start_line end_line =
     (let quotes = q0 # qs;
          line_text = get_line_text self start_line end_line;
          all_found = list_all (\<lambda>quote. fst (find_quote_in_text B quote line_text)) quotes;
          failed_quotes =
            filter (\<lambda>quote. \<not> fst (find_quote_in_text B quote line_text)) quotes
      in if all_found
         then with_claim claim_value (\<lambda>c.
                (new_result index c True)
                  \<lparr>actual_line_range :=
                     JStr (u ''Lines '' @ str_int start_line @ u ''-'' @ str_int end_line),
                   quote_snippet := snippet q0 qs\<rparr>)
         else
           let expanded_start = max 1 (start_line - 5);
               expanded_end = min (int (length (lines self))) (end_line + 5);
               expanded_text = get_line_text self expanded_start expanded_end;
               all_found_expanded =
                 list_all (\<lambda>quote. fst (find_quote_in_text B quote expanded_text)) quotes;
               expanded_match_types =
                 map (\<lambda>quote. snd (find_quote_in_text B quote expanded_text)) quotes
           in if all_found_expanded
              then with_claim claim_value (\<lambda>c.
                     (new_result index c True)
                       \<lparr>actual_line_range :=
                          JStr (u ''Lines '' @ str_int expanded_start @ u ''-''
                                  @ str_int expanded_end @ u '' (expanded search)''),
                        quote_snippet := snippet q0 qs\<rparr>)
              else
                let (best_match_ratio, best_quote_for_recovery) =
                      best_match B (zip quotes expanded_match_types) 0 q0
                in (case (if fl (4 / 10) \<le> best_match_ratio \<and> best_match_ratio < fl (7 / 10)
                          then let recovery_start = max 1 (start_line - 20);
                                   recovery_end =
                                     min (int (length (lines self))) (end_line + 20);
                                   recovery_context =
                                     get_line_text self recovery_start recovery_end
                               in attempt_fact_recovery B self claim_value
                                    best_quote_for_recovery recovery_context recovery_start
                                    recovery_end
                          else Inr None) of
                      Inl e \<Rightarrow> Inl e
                    | Inr (Some (quote, corrected)) \<Rightarrow>
                        with_claim claim_value (\<lambda>c.
                          (new_result index c True)
                            \<lparr>actual_line_range := JStr corrected,
                             quote_snippet := shorten quote,
                             was_recovered := True,
                             corrected_quote := Some quote,
                             corrected_location := Some corrected\<rparr>)
                    | Inr None \<Rightarrow>
                        with_claim claim_value (\<lambda>c.
                          rejection index c q0 qs failed_quotes expanded_match_types
                            start_line end_line)))"

text \<open>
  Document mode. A location that is not a string raises AttributeError in
  \<open>parse_line_range\<close>, which the handler catches like the ValueError of a string that
  does not parse. The quotes are looked at only after the location has parsed.
\<close>

definition validate_document ::
  "builtins \<Rightarrow> validator \<Rightarrow> int \<Rightarrow> json \<Rightarrow> json \<Rightarrow> json list \<Rightarrow> py_error + ValidationResult" where
  "validate_document B self index claim_value location quote_values =
     (case (case location of JStr l \<Rightarrow> parse_line_range B l | _ \<Rightarrow> None) of
        None \<Rightarrow>
          (case slice_json claim_value 80 of
             Inl e \<Rightarrow> Inl e
           | Inr c \<Rightarrow>
               (case fmt B location of
                  None \<Rightarrow> Inl ValueError
                | Some location_text \<Rightarrow>
                    Inr ((new_result index c False)
                           \<lparr>error_message := u ''Invalid location format: '' @ location_text\<rparr>)))
      | Some (start_line, end_line) \<Rightarrow>
          (case strings_of quote_values of
             Some (q0 # qs) \<Rightarrow> validate_lines B self index claim_value q0 qs start_line end_line
           | _ \<Rightarrow> Inl AttributeError))"

text \<open>
  \<open>validate_fact(fact, fact_index, chunk_text)\<close>; \<open>chunk_text\<close> is \<open>None\<close> when the
  argument is omitted, and an empty chunk text is false in \<open>if chunk_text:\<close>. A fact
  that is not a dict raises AttributeError at the first \<open>fact.get\<close>.
\<close>

definition validate_fact ::
  "builtins \<Rightarrow> validator \<Rightarrow> json \<Rightarrow> int \<Rightarrow> pystr option \<Rightarrow> py_error + ValidationResult" where
  "validate_fact B self fct index chunk_text =
     (case fct of
        JDict d \<Rightarrow>
          (let claim_value = dict_get d (u ''claim'') (JStr []);
               location = dict_get d (u ''source_location'') (JStr [])
           in case quotes_to_validate d of
                [] \<Rightarrow>
                  with_claim claim_value (\<lambda>c.
                    (new_result index c False)
                      \<lparr>error_message :=
                         u ''No evidence quotes found (neither evidence_quote nor evidence_quotes)'',
                       actual_line_range := location, quote_snippet := []\<rparr>)
              | q # qs \<Rightarrow>
                  (case chunk_text of
                     Some (c # cs) \<Rightarrow> validate_chunk B index claim_value location (q # qs) (c # cs)
                   | _ \<Rightarrow> validate_document B self index claim_value location (q # qs)))
      | _ \<Rightarrow> Inl AttributeError)"

subsection \<open>validate_facts and the summary statistics\<close>

text \<open>The loop \<open>for i, fact in enumerate(facts)\<close>, from index \<open>i\<close> on; an exception
  of \<open>validate_fact\<close> ends it.\<close>

fun validate_facts_from ::
  "builtins \<Rightarrow> validator \<Rightarrow> int \<Rightarrow> json list \<Rightarrow> py_error + ValidationResult list" where
  "validate_facts_from B self i [] = Inr []"
| "validate_facts_from B self i (fct # facts) =
     (case validate_fact B self fct i None of
        Inl e \<Rightarrow> Inl e
      | Inr result \<Rightarrow>
          (case validate_facts_from B self (i + 1) facts of
             Inl e \<Rightarrow> Inl e
           | Inr results \<Rightarrow> Inr (result # results)))"

definition validate_facts ::
  "builtins \<Rightarrow> validator \<Rightarrow> json list \<Rightarrow> py_error + ValidationResult list" where
  "validate_facts B self facts = validate_facts_from B self 0 facts"

text \<open>
  The dict \<open>stats\<close>. The rate is the float \<open>valid_count / len(results)\<close>, or the
  integer 0 for no results.
\<close>

record stats =
  total_facts :: int
  valid_facts :: int
  invalid_facts :: int
  validation_rate :: rat

definition summary_stats :: "ValidationResult list \<Rightarrow> stats" where
  "summary_stats results =
     (let valid_count = length (filter is_valid results);
          invalid_count = length results - valid_count
      in \<lparr>total_facts = int (length results),
          valid_facts = int valid_count,
          invalid_facts = int invalid_count,
          validation_rate =
            (if results \<noteq> [] then truediv valid_count (length results) else 0)\<rparr>)"

text \<open>
  \<open>validate_session\<close>, given the values that \<open>json.load\<close> reads from the chunk files
  of the document, in the sorted order of their names. \<open>all_facts.extend(chunk_facts)\<close>
  appends the elements of a list, the keys of a dict and the characters of a string, and
  raises TypeError on every other value.
\<close>

definition extend_items :: "json \<Rightarrow> py_error + json list" where
  "extend_items chunk_facts =
     (case chunk_facts of
        JList xs \<Rightarrow> Inr xs
      | JDict d \<Rightarrow> Inr (map (\<lambda>(k, v). JStr k) d)
      | JStr s \<Rightarrow> Inr (map (\<lambda>c. JStr [c]) s)
      | _ \<Rightarrow> Inl TypeError)"

fun load_all :: "json list \<Rightarrow> py_error + json list" where
  "load_all [] = Inr []"
| "load_all (chunk_facts # files) =
     (case extend_items chunk_facts of
        Inl e \<Rightarrow> Inl e
      | Inr items \<Rightarrow>
          (case load_all files of Inl e \<Rightarrow> Inl e | Inr rest \<Rightarrow> Inr (items @ rest)))"

definition validate_session ::
  "builtins \<Rightarrow> validator \<Rightarrow> json list \<Rightarrow> py_error + ValidationResult list \<times> stats" where
  "validate_session B self chunk_files =
     (case load_all chunk_files of
        Inl e \<Rightarrow> Inl e
      | Inr all_facts \<Rightarrow>
          (case validate_facts B self all_facts of
             Inl e \<Rightarrow> Inl e
           | Inr results \<Rightarrow> Inr (results, summary_stats results)))"

section \<open>The normalisation of the specification\<close>

text \<open>
  Modelled from the spec: the normalisation as the specification words it (collapse all
  runs of whitespace to a single space; normalise the curly quotes U+201C, U+201D, U+2018,
  U+2019 to straight quotes; delete a space before or after an en dash; trim). It is
  compared below with \<open>normalize_text\<close>, the normalisation of the source.
\<close>

definition normalize_text_spec :: "pystr \<Rightarrow> pystr" where
  "normalize_text_spec text =
     (let text = join (u '' '') (split_ws text);
          text = replace [8221] [34] (replace [8220] [34] text);
          text = replace [8217] [39] (replace [8216] [39] text);
          text = replace [8211, 32] [8211] (replace [32, 8211] [8211] text)
      in strip text)"

section \<open>Example inputs\<close>

text \<open>
  Builtins for ASCII text: \<open>str.lower\<close> on the letters A to Z, the digits 0 to 9, a
  \<open>json.loads\<close> that knows no text, the default digit limit, and the printed form of
  \<open>None\<close> only. On the inputs below they agree with the Python runtime.
\<close>

definition ascii_lower :: "pystr \<Rightarrow> pystr" where
  "ascii_lower s = map (\<lambda>c. if 65 \<le> c \<and> c \<le> 90 then c + 32 else c) s"

definition ascii_digit :: "nat \<Rightarrow> nat option" where
  "ascii_digit c = (if 48 \<le> c \<and> c \<le> 57 then Some (c - 48) else None)"

definition none_str :: "json \<Rightarrow> pystr option" where
  "none_str v = (case v of JNull \<Rightarrow> Some (u ''None'') | _ \<Rightarrow> None)"

definition ascii_builtins :: builtins where
  "ascii_builtins =
     \<lparr>str_lower = ascii_lower, decimal_digit = ascii_digit, json_loads = (\<lambda>s. None),
      int_max_str_digits = 4300, py_str = none_str\<rparr>"

text \<open>The source text of the repository's validation test, loaded without a client.\<close>

definition test_lines :: "pystr list" where
  "test_lines = map (\<lambda>s. u s @ [10])
     [''Line 1: Introduction to the system'',
      ''Line 2: The backup system performs daily backups at 2 AM.'',
      ''Line 3: All backups are encrypted using AES-256 encryption.'',
      ''Line 4: Backup retention is set to 90 days.'',
      ''Line 5: The system administrator reviews logs weekly.'',
      ''Line 6: Vulnerability scans are performed quarterly by Acme Security.'',
      ''Line 7: All findings are remediated within 30 days.'',
      ''Line 8: The incident response team is available 24/7.'']"

definition test_validator :: validator where
  "test_validator = \<lparr>lines = test_lines, claude_client = None\<rparr>"

text \<open>The fact of test 4 of that test, and a chunk text.\<close>

definition fact_v5_multi_invalid :: json where
  "fact_v5_multi_invalid =
     JDict [(u ''claim'', JStr (u ''System has 24/7 support and automatic failover'')),
            (u ''evidence_quotes'', JList
               [JDict [(u ''quote'', JStr (u ''The incident response team is available 24/7.''))],
                JDict [(u ''quote'',
                   JStr (u ''Automatic failover is configured for all critical systems.''))]]),
            (u ''source_location'', JStr (u ''Lines 8-9''))]"

definition test_chunk :: pystr where
  "test_chunk = u ''The incident response team is available 24/7.''"

text \<open>A quote of ten words of which the first seven align with the text, and a quote of
  three words of which two align.\<close>

definition threshold_quote :: pystr where
  "threshold_quote = u ''All backups are encrypted using AES-256 encryption within thirty days''"

definition threshold_text :: pystr where
  "threshold_text = u ''ALL Backups are always encrypted using AES-256 encryption today''"

definition below_quote :: pystr where
  "below_quote = u ''Backups are encrypted''"

definition below_text :: pystr where
  "below_text = u ''Backups are always compressed''"

text \<open>A source text of three lines.\<close>

definition short_lines :: "pystr list" where
  "short_lines = map (\<lambda>s. u s @ [10])
     [''Backups run daily at 2 AM.'',
      ''All backups are encrypted.'',
      ''Logs are reviewed weekly.'']"

definition short_validator :: validator where
  "short_validator = \<lparr>lines = short_lines, claude_client = None\<rparr>"

text \<open>
  Facts on it: one whose quote is line 2, one whose quote stands two lines before its
  location, one whose quote aligns to one half with the lines around its location, one
  whose claim is \<open>null\<close>, and two whose quotes are blank.
\<close>

definition fact_exact :: json where
  "fact_exact =
     JDict [(u ''claim'', JStr (u ''Backups are encrypted'')),
            (u ''evidence_quote'', JStr (u ''All backups are encrypted.'')),
            (u ''source_location'', JStr (u ''Lines 2-2''))]"

definition fact_expanded :: json where
  "fact_expanded =
     JDict [(u ''claim'', JStr (u ''Backups run every day'')),
            (u ''evidence_quote'', JStr (u ''Backups run daily at 2 AM.'')),
            (u ''source_location'', JStr (u ''Lines 3-3''))]"

definition medium_quote :: pystr where
  "medium_quote = u ''All backups are compressed and encrypted.''"

definition fact_medium :: json where
  "fact_medium =
     JDict [(u ''claim'', JStr (u ''Backups are encrypted'')),
            (u ''evidence_quote'', JStr medium_quote),
            (u ''source_location'', JStr (u ''Lines 2-2''))]"

definition fact_null_claim :: json where
  "fact_null_claim =
     JDict [(u ''claim'', JNull),
            (u ''evidence_quote'', JStr (u ''All backups are encrypted.'')),
            (u ''source_location'', JStr (u ''Lines 2-2''))]"

definition fact_blank_quotes :: json where
  "fact_blank_quotes =
     JDict [(u ''claim'', JStr (u ''Backups are encrypted'')),
            (u ''evidence_quotes'', JList [JStr [], JDict [(u ''quote'', JStr [32, 9, 10])]]),
            (u ''source_location'', JStr (u ''Lines 2-2''))]"

definition fact_blank_page :: json where
  "fact_blank_page =
     JDict [(u ''claim'', JStr (u ''Backups are encrypted'')),
            (u ''evidence_quotes'', JList [JStr [], JDict [(u ''quote'', JStr [32, 9, 10])]]),
            (u ''source_location'', JStr (u ''page 4''))]"

text \<open>
  A fact with two quotes for line 3: the first aligns with no word of the source, the
  second with one word of its three.
\<close>

definition unrelated_quote :: pystr where
  "unrelated_quote = u ''Zebra crossing''"

definition third_quote :: pystr where
  "third_quote = u ''Logs rotate hourly''"

definition fact_two_quotes :: json where
  "fact_two_quotes =
     JDict [(u ''claim'', JStr (u ''Logs are rotated'')),
            (u ''evidence_quotes'', JList [JStr unrelated_quote, JStr third_quote]),
            (u ''source_location'', JStr (u ''Lines 3-3''))]"

text \<open>
  Three completion services that answer every prompt with a fenced JSON text. The first
  quotes line 2 of the source, with \<open>found\<close> true and confidence 0.8. The second
  quotes a sentence of which no half is in the source, with \<open>found\<close> true and
  confidence 0.95. The third quotes a sentence that is not in the source but aligns with
  it in seven words of eight, with the string \<open>"no"\<close> as \<open>found\<close> and confidence 0.8.
  \<open>test_json_loads\<close> reads these three texts as \<open>json.loads\<close> does.
\<close>

definition honest_quote :: pystr where
  "honest_quote = u ''All backups are encrypted.''"

definition absent_quote :: pystr where
  "absent_quote = u ''Backups are stored offsite.''"

definition near_quote :: pystr where
  "near_quote = u ''All backups are encrypted. Logs are reviewed hourly''"

definition json_text :: "pystr \<Rightarrow> pystr \<Rightarrow> pystr \<Rightarrow> pystr" where
  "json_text found quote confidence =
     [123, 34] @ u ''found'' @ [34] @ u '': '' @ found @ u '', '' @ [34] @ u ''quote'' @ [34]
       @ u '': '' @ [34] @ quote @ [34] @ u '', '' @ [34] @ u ''confidence'' @ [34] @ u '': ''
       @ confidence @ [125]"

definition fenced :: "pystr \<Rightarrow> pystr" where
  "fenced s = [96, 96, 96] @ u ''json'' @ [10] @ s @ [10, 96, 96, 96]"

definition honest_client :: "pystr \<Rightarrow> nat \<Rightarrow> reply" where
  "honest_client prompt max_tokens =
     Returned (fenced (json_text (u ''true'') honest_quote (u ''0.8'')))"

definition lying_client :: "pystr \<Rightarrow> nat \<Rightarrow> reply" where
  "lying_client prompt max_tokens =
     Returned (fenced (json_text (u ''true'') absent_quote (u ''0.95'')))"

definition sloppy_client :: "pystr \<Rightarrow> nat \<Rightarrow> reply" where
  "sloppy_client prompt max_tokens =
     Returned (fenced (json_text ([34] @ u ''no'' @ [34]) near_quote (u ''0.8'')))"

definition test_json_loads :: "pystr \<Rightarrow> json option" where
  "test_json_loads s =
     (if s = json_text (u ''true'') honest_quote (u ''0.8'')
      then Some (JDict [(u ''found'', JBool True), (u ''quote'', JStr honest_quote),
                        (u ''confidence'', JFloat (fl (8 / 10)))])
      else if s = json_text (u ''true'') absent_quote (u ''0.95'')
      then Some (JDict [(u ''found'', JBool True), (u ''quote'', JStr absent_quote),
                        (u ''confidence'', JFloat (fl (95 / 100)))])
      else if s = json_text ([34] @ u ''no'' @ [34]) near_quote (u ''0.8'')
      then Some (JDict [(u ''found'', JStr (u ''no'')), (u ''quote'', JStr near_quote),
                        (u ''confidence'', JFloat (fl (8 / 10)))])
      else None)"

definition recovery_builtins :: builtins where
  "recovery_builtins =
     \<lparr>str_lower = ascii_lower, decimal_digit = ascii_digit, json_loads = test_json_loads,
      int_max_str_digits = 4300, py_str = none_str\<rparr>"

definition honest_validator :: validator where
  "honest_validator = \<lparr>lines = short_lines, claude_client = Some honest_client\<rparr>"

definition lying_validator :: validator where
  "lying_validator = \<lparr>lines = short_lines, claude_client = Some lying_client\<rparr>"

definition sloppy_validator :: validator where
  "sloppy_validator = \<lparr>lines = short_lines, claude_client = Some sloppy_client\<rparr>"

text \<open>
  A source text of one line with a word in straight double quotes, and a fact that quotes
  the word in curly double quotes.
\<close>

definition quoted_validator :: validator where
  "quoted_validator =
     \<lparr>lines = [u ''The system is '' @ [34] @ u ''secure'' @ [34] @ u '' today.'' @ [10]],
      claude_client = None\<rparr>"

definition curly_quote :: pystr where
  "curly_quote = [8220] @ u ''secure'' @ [8221]"

definition fact_curly :: json where
  "fact_curly =
     JDict [(u ''claim'', JStr (u ''The system is secure'')),
            (u ''evidence_quote'', JStr curly_quote),
            (u ''source_location'', JStr (u ''Lines 1-1''))]"

section \<open>Notions used to state the properties\<close>

text \<open>The ratio that the loop of \<open>best_match\<close> reads back from one label, if any.\<close>

definition label_ratio :: "builtins \<Rightarrow> pystr \<Rightarrow> rat option" where
  "label_ratio B match_type =
     (if contains [37] match_type
      then map_option (percent_ratio B) (search_percent B match_type)
      else None)"

text \<open>
  A fact on which \<open>validate_fact\<close> raises no exception in document mode: a dict whose
  claim and location are strings and whose quotes to validate are strings.
\<close>

definition well_typed :: "json \<Rightarrow> bool" where
  "well_typed fct =
     (case fct of
        JDict d \<Rightarrow>
          (case (dict_get d (u ''claim'') (JStr []),
                 dict_get d (u ''source_location'') (JStr [])) of
             (JStr c, JStr l) \<Rightarrow> strings_of (quotes_to_validate d) \<noteq> None
           | _ \<Rightarrow> False)
      | _ \<Rightarrow> False)"

section \<open>Basic properties\<close>

lemma contains_Nil: "contains [] s"
  by (cases s) simp_all

lemma contains_iff_sublist: "contains sub s \<longleftrightarrow> sublist sub s"
  by (induction s) (auto simp: sublist_Cons_right)

lemma find_exact:
  "sublist (normalize_text q) (normalize_text t) \<Longrightarrow>
     find_quote_in_text B q t = (True, u ''exact match'')"
  by (simp add: find_quote_in_text_def contains_iff_sublist)

lemma strings_of_map: "strings_of (map JStr qs) = Some qs"
  by (induction qs) simp_all

lemma strings_of_Some: "strings_of vs = Some qs \<Longrightarrow> vs = map JStr qs"
proof (induction vs arbitrary: qs)
  case Nil
  then show ?case by simp
next
  case (Cons v vs)
  then show ?case by (cases v) auto
qed

lemma with_claim_string: "with_claim (JStr c) build = Inr (build (JStr (take 80 c)))"
  by (simp add: with_claim_def slice_json_def)

lemma fl_7_10: "fl (7 / 10) = 6305039478318694 / 2 ^ 53"
  by code_simp

lemma fl_0: "fl 0 = 0"
  by (simp add: fl_def)

text \<open>The definitions unfolded to evaluate the functions on the example inputs.\<close>

lemmas ev = u_def is_space_def int_space_def split_ws_def strip_def slice_def str_find_def
  str_int_def py_int_def within_digit_limit_def parse_line_range_def normalize_text_def
  get_line_text_def dict_get_def quotes_to_validate_def ascii_builtins_def ascii_lower_def
  ascii_digit_def test_validator_def test_lines_def

lemmas evf = find_quote_in_text_def match_ratio_def truediv_def fl_7_10 fl_0 Let_def

section \<open>Properties of float rounding\<close>

lemma rhe_floor: "\<lfloor>x\<rfloor> \<le> round_half_even x \<and> round_half_even x \<le> \<lfloor>x\<rfloor> + 1"
  by (simp add: round_half_even_def Let_def)

lemma rhe_of_int: "round_half_even (of_int k) = k"
  by (simp add: round_half_even_def Let_def)

lemma rhe_mono:
  assumes "x \<le> y"
  shows "round_half_even x \<le> round_half_even y"
proof (cases "\<lfloor>x\<rfloor> = \<lfloor>y\<rfloor>")
  case True
  with assms have "x - of_int \<lfloor>x\<rfloor> \<le> y - of_int \<lfloor>y\<rfloor>" by simp
  with True show ?thesis
    by (auto simp add: round_half_even_def Let_def)
next
  case False
  with assms have "\<lfloor>x\<rfloor> < \<lfloor>y\<rfloor>"
    using floor_mono [OF assms] by linarith
  with rhe_floor [of x] rhe_floor [of y] show ?thesis by linarith
qed

lemma rhe_le: "x \<le> of_int k \<Longrightarrow> round_half_even x \<le> k"
  using rhe_mono [of x "of_int k"] by (simp add: rhe_of_int)

lemma rhe_ge: "of_int k \<le> x \<Longrightarrow> k \<le> round_half_even x"
  using rhe_mono [of "of_int k" x] by (simp add: rhe_of_int)

lemma rhe_less: 
  assumes "x < of_int k - 1 / 2" 
  shows "round_half_even x < k"
proof -
  have "of_int (round_half_even x) \<le> x + 1 / 2"
    by (auto simp add: round_half_even_def Let_def) linarith+
  with assms have "(of_int (round_half_even x) :: rat) < of_int k" by linarith
  then show ?thesis by simp
qed

lemma bitlen_powi:
  assumes "0 < p"
  shows "(2::rat) powi (bitlen p - 1) \<le> of_int p" and "of_int p < (2::rat) powi (bitlen p)"
proof -
  from assms have b: "1 \<le> bitlen p"
    by (simp add: bitlen_alt_def)
  from bitlen_bounds [OF assms]
  have "(2::int) ^ nat (bitlen p - 1) \<le> p" and "p < 2 ^ nat (bitlen p)" by simp_all
  then have "(of_int ((2::int) ^ nat (bitlen p - 1)) :: rat) \<le> of_int p"
    and "(of_int p :: rat) < of_int (2 ^ nat (bitlen p))"
    by (simp_all only: of_int_le_iff of_int_less_iff)
  with b show "(2::rat) powi (bitlen p - 1) \<le> of_int p" and "of_int p < (2::rat) powi (bitlen p)"
    by (simp_all add: power_int_nonneg_exp)
qed

lemma binade_bounds:
  assumes "0 < x"
  shows "2 powi (binade x) \<le> x" and "x < 2 powi (binade x + 1)"
proof -
  obtain p q where pq: "quotient_of x = (p, q)" by (cases "quotient_of x")
  then have q: "0 < q" and x: "x = of_int p / of_int q"
    by (simp_all add: quotient_of_denom_pos quotient_of_div)
  from assms q x have p: "0 < p"
    by (simp add: zero_less_divide_iff)
  define d where "d = bitlen p - bitlen q"
  have qr: "(0::rat) < of_int q" using q by simp
  have pw: "(0::rat) < 2 powi k" for k by (simp add: power_int_def)
  have A: "x < 2 powi (d + 1)"
  proof -
    have "x < 2 powi (bitlen p) / of_int q"
      unfolding x using bitlen_powi(2) [OF p] qr by (simp add: divide_strict_right_mono)
    also have "\<dots> \<le> 2 powi (bitlen p) / 2 powi (bitlen q - 1)"
      using bitlen_powi(1) [OF q] pw by (simp add: frac_le)
    also have "\<dots> = 2 powi (d + 1)"
      by (simp add: d_def power_int_diff [symmetric] algebra_simps)
    finally show ?thesis .
  qed
  have B: "2 powi (d - 1) < x"
  proof -
    have "(2::rat) powi (d - 1) = 2 powi (bitlen p - 1) / 2 powi (bitlen q)"
      by (simp add: d_def power_int_diff [symmetric] algebra_simps)
    also have "\<dots> < 2 powi (bitlen p - 1) / of_int q"
      using bitlen_powi(2) [OF q] qr pw by (simp add: frac_less2)
    also have "\<dots> \<le> x"
      unfolding x using bitlen_powi(1) [OF p] qr by (simp add: divide_right_mono)
    finally show ?thesis .
  qed
  show "2 powi (binade x) \<le> x"
  proof (cases "of_int q * 2 powi d \<le> (of_int p :: rat)")
    case True
    then have "binade x = d" by (simp add: binade_def pq d_def)
    moreover from True qr have "2 powi d \<le> x"
      unfolding x by (simp add: pos_le_divide_eq mult.commute)
    ultimately show ?thesis by simp
  next
    case False
    then have "binade x = d - 1" by (simp add: binade_def pq d_def)
    with B show ?thesis by simp
  qed
  show "x < 2 powi (binade x + 1)"
  proof (cases "of_int q * 2 powi d \<le> (of_int p :: rat)")
    case True
    then have "binade x = d" by (simp add: binade_def pq d_def)
    with A show ?thesis by simp
  next
    case False
    then have "binade x = d - 1" by (simp add: binade_def pq d_def)
    moreover from False qr have "x < 2 powi d"
      unfolding x by (simp add: pos_divide_less_eq mult.commute not_le)
    ultimately show ?thesis by simp
  qed
qed

lemma powi_less_cancel: "(2::rat) powi a < 2 powi b \<Longrightarrow> a < b"
  by (rule ccontr) (simp add: not_less power_int_increasing dual_order.strict_iff_not)

lemma binade_unique:
  assumes "0 < x" and "2 powi e \<le> x" and "x < 2 powi (e + 1)"
  shows "binade x = e"
proof -
  from binade_bounds [OF assms(1)] assms(2,3)
  have "(2::rat) powi (binade x) < 2 powi (e + 1)" and "(2::rat) powi e < 2 powi (binade x + 1)"
    by linarith+
  then have "binade x < e + 1" and "e < binade x + 1"
    by (simp_all only: powi_less_cancel)
  then show ?thesis by simp
qed

lemma binade_mono:
  assumes "0 < x" and "x \<le> y"
  shows "binade x \<le> binade y"
proof -
  from assms have "0 < y" by simp
  from binade_bounds(1) [OF assms(1)] binade_bounds(2) [OF this] assms(2)
  have "(2::rat) powi (binade x) < 2 powi (binade y + 1)" by linarith
  then have "binade x < binade y + 1" by (rule powi_less_cancel)
  then show ?thesis by simp
qed

lemma fl_pos:
  "0 < x \<Longrightarrow>
     fl x = of_int (round_half_even (x / 2 powi (max (binade x) (- 1022) - 52)))
              * 2 powi (max (binade x) (- 1022) - 52)"
  by (simp add: fl_def Let_def)

lemma fl_upper:
  assumes "0 < x"
  shows "fl x \<le> 2 powi (max (binade x) (- 1022) + 1)"
proof -
  define e where "e = max (binade x) (- 1022)"
  have u: "(0::rat) < 2 powi (e - 52)" by (simp add: power_int_def)
  have "x < 2 powi (binade x + 1)" by (rule binade_bounds(2) [OF assms])
  also have "\<dots> \<le> 2 powi (e + 1)"
    by (rule power_int_increasing) (simp_all add: e_def)
  finally have "x / 2 powi (e - 52) < 2 powi (e + 1) / 2 powi (e - 52)"
    using u by (simp add: divide_strict_right_mono)
  also have "\<dots> = of_int (2 ^ 53)"
    by (simp add: power_int_diff [symmetric])
  finally have "round_half_even (x / 2 powi (e - 52)) \<le> 2 ^ 53"
    by (intro rhe_le) simp
  then have "(of_int (round_half_even (x / 2 powi (e - 52))) :: rat) \<le> of_int (2 ^ 53)"
    by (simp only: of_int_le_iff)
  then have "fl x \<le> of_int (2 ^ 53) * 2 powi (e - 52)"
    unfolding fl_pos [OF assms] e_def [symmetric] using u
    by (simp add: mult_right_mono)
  also have "\<dots> = 2 powi 53 * 2 powi (e - 52)" by simp
  also have "\<dots> = 2 powi (e + 1)"
    by (simp add: power_int_add [symmetric] add.commute del: power_int_numeral)
  finally show ?thesis by (simp add: e_def)
qed

lemma fl_lower:
  assumes "0 < x" and "- 1022 \<le> binade x"
  shows "2 powi (binade x) \<le> fl x"
proof -
  define e where "e = binade x"
  from assms(2) have m: "max (binade x) (- 1022) = e" by (simp add: e_def)
  have u: "(0::rat) < 2 powi (e - 52)" by (simp add: power_int_def)
  have "(of_int (2 ^ 52) :: rat) = 2 powi e / 2 powi (e - 52)"
    by (simp add: power_int_diff [symmetric])
  also have "\<dots> \<le> x / 2 powi (e - 52)"
    using binade_bounds(1) [OF assms(1)] u by (simp add: divide_right_mono e_def)
  finally have "2 ^ 52 \<le> round_half_even (x / 2 powi (e - 52))"
    by (rule rhe_ge)
  then have "(of_int (2 ^ 52) :: rat) \<le> of_int (round_half_even (x / 2 powi (e - 52)))"
    by (simp only: of_int_le_iff)
  then have "of_int (2 ^ 52) * 2 powi (e - 52) \<le> fl x"
    unfolding fl_pos [OF assms(1)] m using u
    by (simp add: mult_right_mono)
  moreover have "(of_int (2 ^ 52) :: rat) * 2 powi (e - 52) = 2 powi 52 * 2 powi (e - 52)" by simp
  moreover have "(2::rat) powi 52 * 2 powi (e - 52) = 2 powi e"
    by (simp add: power_int_add [symmetric] del: power_int_numeral)
  ultimately show ?thesis by (simp add: e_def)
qed

lemma fl_nonneg:
  assumes "0 \<le> x"
  shows "0 \<le> fl x"
proof (cases "x = 0")
  case True
  then show ?thesis by (simp add: fl_def)
next
  case False
  with assms have x: "0 < x" by simp
  have u: "(0::rat) < 2 powi k" for k by (simp add: power_int_def)
  have "(of_int 0 :: rat) \<le> x / 2 powi (max (binade x) (- 1022) - 52)"
    using x u by simp
  then have "0 \<le> round_half_even (x / 2 powi (max (binade x) (- 1022) - 52))"
    by (rule rhe_ge)
  then show ?thesis
    unfolding fl_pos [OF x] using u by simp
qed

lemma fl_mono:
  assumes "0 \<le> x" and "x \<le> y"
  shows "fl x \<le> fl y"
proof (cases "x = 0")
  case True
  with assms fl_nonneg [of y] show ?thesis by (simp add: fl_def)
next
  case False
  with assms have x: "0 < x" and y: "0 < y" by simp_all
  define ex where "ex = max (binade x) (- 1022)"
  define ey where "ey = max (binade y) (- 1022)"
  have le: "ex \<le> ey"
    using binade_mono [OF x assms(2)] by (simp add: ex_def ey_def)
  show ?thesis
  proof (cases "ex = ey")
    case True
    have u: "(0::rat) < 2 powi (ey - 52)" by (simp add: power_int_def)
    then have "x / 2 powi (ey - 52) \<le> y / 2 powi (ey - 52)"
      using assms(2) by (simp add: divide_right_mono)
    then have "round_half_even (x / 2 powi (ey - 52)) \<le> round_half_even (y / 2 powi (ey - 52))"
      by (rule rhe_mono)
    then have "(of_int (round_half_even (x / 2 powi (ey - 52))) :: rat)
                 \<le> of_int (round_half_even (y / 2 powi (ey - 52)))"
      by (simp only: of_int_le_iff)
    then show ?thesis
      unfolding fl_pos [OF x] fl_pos [OF y] ex_def [symmetric] ey_def [symmetric] True
      using u by (simp add: mult_right_mono)
  next
    case False
    with le have lt: "ex < ey" by simp
    then have b: "- 1022 \<le> binade y" and ey: "ey = binade y"
      unfolding ex_def ey_def by linarith+
    have "fl x \<le> 2 powi (ex + 1)"
      using fl_upper [OF x] by (simp add: ex_def)
    also have "\<dots> \<le> 2 powi ey"
      by (rule power_int_increasing) (use lt in simp_all)
    also have "\<dots> \<le> fl y"
      unfolding ey by (rule fl_lower [OF y b])
    finally show ?thesis .
  qed
qed

lemma fl_consts:
  "fl (1 / 2) = 1 / 2" "fl 39 = 39" "fl 40 = 40" "fl 69 = 69" "fl 70 = 70"
  "fl (39 / 100) < fl (4 / 10)" "fl (69 / 100) < fl (7 / 10)" "fl (1 / 2) < fl (7 / 10)"
  by code_simp+

lemma ratio_ge:
  assumes "0 < n" and "7 * n \<le> 10 * m"
  shows "fl (7 / 10) \<le> truediv m n"
proof -
  from assms(2) have "(of_nat (7 * n) :: rat) \<le> of_nat (10 * m)"
    by (simp only: of_nat_le_iff)
  then have "7 * (of_nat n :: rat) \<le> 10 * of_nat m"
    by simp
  with assms(1) have "(7 / 10 :: rat) \<le> of_nat m / of_nat n"
    by (simp add: pos_le_divide_eq)
  then show ?thesis
    unfolding truediv_def by (intro fl_mono) simp_all
qed

lemma ratio_less:
  assumes "0 < n" and "10 * m < 7 * n" and "n < 2 ^ 49"
  shows "truediv m n < fl (7 / 10)"
proof -
  define x :: rat where "x = of_nat m / of_nat n"
  have n: "(0::rat) < of_nat n" using assms(1) by simp
  from assms(2) have "10 * m + 1 \<le> 7 * n" by simp
  then have "(of_nat (10 * m + 1) :: rat) \<le> of_nat (7 * n)"
    by (simp only: of_nat_le_iff)
  then have m: "10 * (of_nat m :: rat) + 1 \<le> 7 * of_nat n"
    by simp
  from assms(3) have "(of_nat n :: rat) < of_nat (2 ^ 49)"
    by (simp only: of_nat_less_iff)
  then have b: "(of_nat n :: rat) < 562949953421312"
    by simp
  have x0: "0 \<le> x" by (simp add: x_def)
  show ?thesis
  proof (cases "x < 1 / 2")
    case True
    with x0 have "fl x \<le> fl (1 / 2)" by (intro fl_mono) simp_all
    with fl_consts(8) show ?thesis by (simp add: truediv_def x_def)
  next
    case False
    then have lo: "1 / 2 \<le> x" by simp
    then have xp: "0 < x" by simp
    from m n have hi: "x < 1"
      unfolding x_def by (simp add: pos_divide_less_eq)
    have "binade x = - 1"
      by (rule binade_unique [OF xp]) (use lo hi in \<open>simp_all add: power_int_minus\<close>)
    then have fx: "fl x = of_int (round_half_even (x * 2 ^ 53)) / 2 ^ 53"
      unfolding fl_pos [OF xp] by (simp add: power_int_minus field_simps)
    have "2 * (of_nat m * 9007199254740992) < (12610078956637387 :: rat) * of_nat n"
      using m b by linarith
    then have "of_nat m * 9007199254740992 < ((6305039478318694 :: rat) - 1 / 2) * of_nat n"
      by (simp add: algebra_simps)
    with n have "of_nat m * 9007199254740992 / of_nat n < (6305039478318694 :: rat) - 1 / 2"
      by (simp add: pos_divide_less_eq)
    then have "x * 2 ^ 53 < of_int 6305039478318694 - 1 / 2"
      unfolding x_def by simp
    then have "round_half_even (x * 2 ^ 53) < 6305039478318694"
      by (rule rhe_less)
    then have "(of_int (round_half_even (x * 2 ^ 53)) :: rat) < of_int 6305039478318694"
      by (simp only: of_int_less_iff)
    then have "fl x < 6305039478318694 / 2 ^ 53"
      unfolding fx by (simp add: divide_strict_right_mono)
    then show ?thesis by (simp add: fl_7_10 truediv_def x_def)
  qed
qed

lemma percent_band:
  "fl (4 / 10) \<le> fl (fl (of_nat N) / 100) \<longleftrightarrow> 40 \<le> N"
  "fl (fl (of_nat N) / 100) < fl (7 / 10) \<longleftrightarrow> N < 70"
proof -
  have up: "fl (of_nat k / 100) \<le> fl (fl (of_nat N) / 100)" if "k \<le> N" "fl (of_nat k) = of_nat k" for k
  proof -
    from that(1) have "fl (of_nat k) \<le> fl (of_nat N)" by (intro fl_mono) simp_all
    with that(2) show ?thesis by (intro fl_mono) simp_all
  qed
  have down: "fl (fl (of_nat N) / 100) \<le> fl (of_nat k / 100)" if "N \<le> k" "fl (of_nat k) = of_nat k" for k
  proof -
    from that(1) have "fl (of_nat N) \<le> fl (of_nat k)" by (intro fl_mono) simp_all
    with that(2) fl_nonneg [of "of_nat N"] show ?thesis by (intro fl_mono) simp_all
  qed
  show "fl (4 / 10) \<le> fl (fl (of_nat N) / 100) \<longleftrightarrow> 40 \<le> N"
  proof
    assume "40 \<le> N"
    from up [OF this] fl_consts(3) show "fl (4 / 10) \<le> fl (fl (of_nat N) / 100)" by simp
  next
    assume a: "fl (4 / 10) \<le> fl (fl (of_nat N) / 100)"
    show "40 \<le> N"
    proof (rule ccontr)
      assume "\<not> 40 \<le> N"
      then have "N \<le> 39" by simp
      from down [OF this] fl_consts(2,6) a show False by simp
    qed
  qed
  show "fl (fl (of_nat N) / 100) < fl (7 / 10) \<longleftrightarrow> N < 70"
  proof
    assume "N < 70"
    then have "N \<le> 69" by simp
    from down [OF this] fl_consts(4,7) show "fl (fl (of_nat N) / 100) < fl (7 / 10)" by simp
  next
    assume a: "fl (fl (of_nat N) / 100) < fl (7 / 10)"
    show "N < 70"
    proof (rule ccontr)
      assume "\<not> N < 70"
      then have "70 \<le> N" by simp
      from up [OF this] fl_consts(5) a show False by simp
    qed
  qed
qed

section \<open>Properties of quote matching\<close>

lemma split_aux_nonempty: "(\<exists>c \<in> set s. \<not> is_space c) \<or> w \<noteq> [] \<Longrightarrow> split_aux w s \<noteq> []"
  by (induction s arbitrary: w) auto

lemma strip_nonspace:
  assumes "strip s \<noteq> []"
  shows "\<exists>c \<in> set (strip s). \<not> is_space c"
proof -
  define t where "t = dropWhile is_space (rev (dropWhile is_space s))"
  from assms have "t \<noteq> []" by (simp add: strip_def t_def)
  then have "hd t \<in> set t" and "\<not> is_space (hd t)"
    unfolding t_def by (simp_all add: hd_dropWhile)
  then show ?thesis
    unfolding strip_def t_def [symmetric] by auto
qed

lemma normalized_words_nonempty:
  "normalize_text quote \<noteq> [] \<Longrightarrow> split_ws (normalize_text quote) \<noteq> []"
  unfolding split_ws_def
  by (rule split_aux_nonempty, rule disjI1) (simp add: normalize_text_def Let_def strip_nonspace)

lemma format_percent_70: "format_percent (fl (7 / 10)) = u ''70%''"
  by code_simp

text \<open>
  Claim C4. When the normalised quote is not contained in the normalised text, so that
  the ordered partial match decides, let \<open>matched_words\<close> be the count of the
  forward, case-insensitive alignment of the quote's words against the text's words.
  A ratio of exactly 7/10 is a match with the label \<open>partial match (70%)\<close>; a ratio
  below 7/10 is reported as not found, with the label
  \<open>not found (only R% match)\<close> (for a quote of fewer than \<open>2 ^ 49\<close> words, where
  the float quotient orders as the exact one); every ratio of at least 7/10 is a
  match with the label \<open>partial match (R%)\<close>. Here \<open>R%\<close> is the float ratio as
  \<open>:.0%\<close> prints it.
\<close>

theorem partial_match_threshold:
  assumes "\<not> sublist (normalize_text quote) (normalize_text text)"
      and "quote_words = split_ws (normalize_text quote)"
      and "matched_words = snd (match_words B quote_words (split_ws (normalize_text text)) 0 0)"
  shows "(10 * matched_words = 7 * length quote_words \<longrightarrow>
            find_quote_in_text B quote text = (True, u ''partial match (70%)''))
     \<and> (10 * matched_words < 7 * length quote_words \<and> length quote_words < 2 ^ 49 \<longrightarrow>
            find_quote_in_text B quote text =
              (False, u ''not found (only ''
                 @ format_percent (truediv matched_words (length quote_words)) @ u '' match)''))
     \<and> (7 * length quote_words \<le> 10 * matched_words \<longrightarrow>
            find_quote_in_text B quote text =
              (True, u ''partial match (''
                 @ format_percent (truediv matched_words (length quote_words)) @ u '')''))"
proof -
  from assms(1) have "normalize_text quote \<noteq> []" by auto
  then have ne: "quote_words \<noteq> []" and n: "0 < length quote_words"
    by (simp_all add: assms(2) normalized_words_nonempty)
  have r: "match_ratio B (normalize_text quote) (normalize_text text)
             = truediv matched_words (length quote_words)"
    using ne by (simp add: match_ratio_def Let_def assms(2,3))
  have f: "find_quote_in_text B quote text =
     (if fl (7 / 10) \<le> truediv matched_words (length quote_words)
      then (True, u ''partial match (''
                 @ format_percent (truediv matched_words (length quote_words)) @ u '')'')
      else (False, u ''not found (only ''
                 @ format_percent (truediv matched_words (length quote_words)) @ u '' match)''))"
    using assms(1) by (simp add: find_quote_in_text_def Let_def contains_iff_sublist r)
  have ge: "find_quote_in_text B quote text =
              (True, u ''partial match (''
                 @ format_percent (truediv matched_words (length quote_words)) @ u '')'')"
    if "7 * length quote_words \<le> 10 * matched_words"
    using ratio_ge [OF n that] by (simp add: f)
  have eq: "find_quote_in_text B quote text = (True, u ''partial match (70%)'')"
    if e: "10 * matched_words = 7 * length quote_words"
  proof -
    from e have "(of_nat (10 * matched_words) :: rat) = of_nat (7 * length quote_words)"
      by (simp only:)
    with n have q: "(of_nat matched_words :: rat) / of_nat (length quote_words) = 7 / 10"
      by (simp add: field_simps)
    have "truediv matched_words (length quote_words) = fl (7 / 10)"
      unfolding truediv_def q ..
    with ge e show ?thesis
      by (simp add: format_percent_70 u_def)
  qed
  have lt: "find_quote_in_text B quote text =
              (False, u ''not found (only ''
                 @ format_percent (truediv matched_words (length quote_words)) @ u '' match)'')"
    if "10 * matched_words < 7 * length quote_words" "length quote_words < 2 ^ 49"
    using ratio_less [OF n that] by (simp add: f)
  from ge eq lt show ?thesis by blast
qed

lemma format_percent_67: "format_percent (truediv 2 3) = u ''67%''"
  by code_simp

theorem partial_match_threshold_witness:
  "find_quote_in_text ascii_builtins threshold_quote threshold_text
     = (True, u ''partial match (70%)'')
   \<and> find_quote_in_text ascii_builtins below_quote below_text
     = (False, u ''not found (only 67% match)'')"
proof -
  have s1: "\<not> sublist (normalize_text threshold_quote) (normalize_text threshold_text)"
    by (simp add: ev threshold_quote_def threshold_text_def flip: contains_iff_sublist)
  have m1: "snd (match_words ascii_builtins (split_ws (normalize_text threshold_quote))
                   (split_ws (normalize_text threshold_text)) 0 0) = 7"
      "length (split_ws (normalize_text threshold_quote)) = 10"
    by (simp_all add: ev threshold_quote_def threshold_text_def)
  have s2: "\<not> sublist (normalize_text below_quote) (normalize_text below_text)"
    by (simp add: ev below_quote_def below_text_def flip: contains_iff_sublist)
  have m2: "snd (match_words ascii_builtins (split_ws (normalize_text below_quote))
                   (split_ws (normalize_text below_text)) 0 0) = 2"
      "length (split_ws (normalize_text below_quote)) = 3"
    by (simp_all add: ev below_quote_def below_text_def)
  from partial_match_threshold [OF s1 refl refl, of ascii_builtins]
  have 1: "find_quote_in_text ascii_builtins threshold_quote threshold_text
             = (True, u ''partial match (70%)'')"
    by (simp add: m1)
  from partial_match_threshold [OF s2 refl refl, of ascii_builtins]
  have 2: "find_quote_in_text ascii_builtins below_quote below_text
             = (False, u ''not found (only 67% match)'')"
    by (simp add: m2 format_percent_67 u_def)
  from 1 2 show ?thesis by simp
qed

section \<open>The branches of validate_fact\<close>

lemma validate_fact_chunk:
  "quotes_to_validate d = q # qs \<Longrightarrow>
   validate_fact B self (JDict d) i (Some (c # cs)) =
     validate_chunk B i (dict_get d (u ''claim'') (JStr []))
       (dict_get d (u ''source_location'') (JStr [])) (q # qs) (c # cs)"
  by (simp add: validate_fact_def)

lemma validate_fact_document:
  "quotes_to_validate d = q # qs \<Longrightarrow> chunk_text = None \<or> chunk_text = Some [] \<Longrightarrow>
   validate_fact B self (JDict d) i chunk_text =
     validate_document B self i (dict_get d (u ''claim'') (JStr []))
       (dict_get d (u ''source_location'') (JStr [])) (q # qs)"
  by (auto simp add: validate_fact_def)

lemma validate_document_parsed:
  "parse_line_range B l = Some (start_line, end_line) \<Longrightarrow>
   validate_document B self i claim_value (JStr l) (map JStr (q0 # qs)) =
     validate_lines B self i claim_value q0 qs start_line end_line"
  by (simp add: validate_document_def strings_of_map del: list.map)

lemma validate_document_unparsed:
  "parse_line_range B l = None \<Longrightarrow>
   validate_document B self i (JStr c) (JStr l) quote_values =
     Inr ((new_result i (JStr (take 80 c)) False)
            \<lparr>error_message := u ''Invalid location format: '' @ l\<rparr>)"
  by (simp add: validate_document_def slice_json_def fmt_def)

lemma attempt_fact_recovery_string:
  "attempt_fact_recovery B self (JStr c) original_quote search_context start_line end_line =
     Inr (case claude_client self of
            None \<Rightarrow> None
          | Some client \<Rightarrow>
              try_recovery B client
                (recovery_prompt c original_quote search_context start_line end_line)
                search_context start_line end_line)"
  by (simp add: attempt_fact_recovery_def slice_json_def fmt_def split: option.splits)

lemma validate_lines_exact:
  assumes "list_all (\<lambda>quote. fst (find_quote_in_text B quote
              (get_line_text self start_line end_line))) (q0 # qs)"
  shows "validate_lines B self i (JStr c) q0 qs start_line end_line =
     Inr ((new_result i (JStr (take 80 c)) True)
        \<lparr>actual_line_range :=
           JStr (u ''Lines '' @ str_int start_line @ u ''-'' @ str_int end_line),
         quote_snippet := snippet q0 qs\<rparr>)"
  using assms unfolding validate_lines_def Let_def
  by (simp only: if_True with_claim_string)

lemma validate_lines_expanded:
  assumes "\<not> list_all (\<lambda>quote. fst (find_quote_in_text B quote
              (get_line_text self start_line end_line))) (q0 # qs)"
      and "list_all (\<lambda>quote. fst (find_quote_in_text B quote
              (get_line_text self (max 1 (start_line - 5))
                 (min (int (length (lines self))) (end_line + 5))))) (q0 # qs)"
  shows "validate_lines B self i (JStr c) q0 qs start_line end_line =
     Inr ((new_result i (JStr (take 80 c)) True)
        \<lparr>actual_line_range :=
           JStr (u ''Lines '' @ str_int (max 1 (start_line - 5)) @ u ''-''
             @ str_int (min (int (length (lines self))) (end_line + 5))
             @ u '' (expanded search)''),
         quote_snippet := snippet q0 qs\<rparr>)"
  using assms unfolding validate_lines_def Let_def
  by (simp only: if_False if_True with_claim_string)

lemma validate_lines_failed:
  assumes "\<not> list_all (\<lambda>quote. fst (find_quote_in_text B quote
              (get_line_text self start_line end_line))) (q0 # qs)"
      and "\<not> list_all (\<lambda>quote. fst (find_quote_in_text B quote
              (get_line_text self (max 1 (start_line - 5))
                 (min (int (length (lines self))) (end_line + 5))))) (q0 # qs)"
      and "best_match B
             (zip (q0 # qs)
                (map (\<lambda>quote. snd (find_quote_in_text B quote
                        (get_line_text self (max 1 (start_line - 5))
                           (min (int (length (lines self))) (end_line + 5))))) (q0 # qs)))
             0 q0 = (best_match_ratio, best_quote)"
  shows "validate_lines B self i (JStr c) q0 qs start_line end_line =
     Inr (case (if fl (4 / 10) \<le> best_match_ratio \<and> best_match_ratio < fl (7 / 10)
                then case claude_client self of
                       None \<Rightarrow> None
                     | Some client \<Rightarrow>
                         try_recovery B client
                           (recovery_prompt c best_quote
                              (get_line_text self (max 1 (start_line - 20))
                                 (min (int (length (lines self))) (end_line + 20)))
                              (max 1 (start_line - 20))
                              (min (int (length (lines self))) (end_line + 20)))
                           (get_line_text self (max 1 (start_line - 20))
                              (min (int (length (lines self))) (end_line + 20)))
                           (max 1 (start_line - 20))
                           (min (int (length (lines self))) (end_line + 20))
                else None) of
            Some (quote, corrected) \<Rightarrow>
              (new_result i (JStr (take 80 c)) True)
                \<lparr>actual_line_range := JStr corrected, quote_snippet := shorten quote,
                 was_recovered := True, corrected_quote := Some quote,
                 corrected_location := Some corrected\<rparr>
          | None \<Rightarrow>
              rejection i (JStr (take 80 c)) q0 qs
                (filter (\<lambda>quote. \<not> fst (find_quote_in_text B quote
                           (get_line_text self start_line end_line))) (q0 # qs))
                (map (\<lambda>quote. snd (find_quote_in_text B quote
                            (get_line_text self (max 1 (start_line - 5))
                               (min (int (length (lines self))) (end_line + 5))))) (q0 # qs))
                start_line end_line)"
proof -
  have "validate_lines B self i (JStr c) q0 qs start_line end_line =
     (case (if fl (4 / 10) \<le> best_match_ratio \<and> best_match_ratio < fl (7 / 10)
            then attempt_fact_recovery B self (JStr c) best_quote
                   (get_line_text self (max 1 (start_line - 20))
                      (min (int (length (lines self))) (end_line + 20)))
                   (max 1 (start_line - 20)) (min (int (length (lines self))) (end_line + 20))
            else Inr None) of
        Inl e \<Rightarrow> Inl e
      | Inr (Some (quote, corrected)) \<Rightarrow>
          with_claim (JStr c) (\<lambda>c.
            (new_result i c True)
              \<lparr>actual_line_range := JStr corrected, quote_snippet := shorten quote,
               was_recovered := True, corrected_quote := Some quote,
               corrected_location := Some corrected\<rparr>)
      | Inr None \<Rightarrow>
          with_claim (JStr c) (\<lambda>c.
            rejection i c q0 qs
              (filter (\<lambda>quote. \<not> fst (find_quote_in_text B quote
                         (get_line_text self start_line end_line))) (q0 # qs))
              (map (\<lambda>quote. snd (find_quote_in_text B quote
                          (get_line_text self (max 1 (start_line - 5))
                             (min (int (length (lines self))) (end_line + 5))))) (q0 # qs))
              start_line end_line))"
    using assms(1,2) unfolding validate_lines_def Let_def
    by (simp only: if_False assms(3) prod.case)
  then show ?thesis
    by (simp add: attempt_fact_recovery_string with_claim_string split: option.splits)
qed

lemma rejection_fields:
  "\<not> is_valid (rejection i c q0 qs failed labels s e)"
  "\<not> was_recovered (rejection i c q0 qs failed labels s e)"
  "corrected_quote (rejection i c q0 qs failed labels s e) = None"
  "corrected_location (rejection i c q0 qs failed labels s e) = None"
  "fact_index (rejection i c q0 qs failed labels s e) = i"
  by (simp_all add: rejection_def new_result_def)

lemma validate_lines_total:
  "\<exists>r. validate_lines B self i (JStr c) q0 qs start_line end_line = Inr r \<and> fact_index r = i"
proof -
  let ?exact = "list_all (\<lambda>quote. fst (find_quote_in_text B quote
              (get_line_text self start_line end_line))) (q0 # qs)"
  let ?expanded = "list_all (\<lambda>quote. fst (find_quote_in_text B quote
              (get_line_text self (max 1 (start_line - 5))
                 (min (int (length (lines self))) (end_line + 5))))) (q0 # qs)"
  show ?thesis
  proof (cases ?exact)
    case True
    from validate_lines_exact [OF True] show ?thesis by (simp add: new_result_def)
  next
    case False
    show ?thesis
    proof (cases ?expanded)
      case True
      from validate_lines_expanded [OF False True] show ?thesis by (simp add: new_result_def)
    next
      case nexp: False
      from validate_lines_failed [OF False nexp surjective_pairing] show ?thesis
        by (auto simp add: new_result_def rejection_fields split: option.splits)
    qed
  qed
qed

section \<open>The example inputs evaluated\<close>

lemmas ev3 = short_validator_def short_lines_def honest_validator_def lying_validator_def
  sloppy_validator_def quoted_validator_def medium_quote_def honest_quote_def absent_quote_def
  near_quote_def unrelated_quote_def third_quote_def curly_quote_def

lemmas evq = find_quote_in_text_def match_ratio_def truediv_def Let_def

lemma float_consts:
  "format_percent 0 = u ''0%''" "format_percent (1 / 2) = u ''50%''"
  "format_percent (fl (1 / 3)) = u ''33%''" "format_percent (7 / 8) = u ''88%''"
  "fl (fl 0 / 100) = 0" "fl (fl 50 / 100) = 1 / 2" "fl (fl 33 / 100) = fl (33 / 100)"
  "fl (4 / 10) \<le> 1 / 2" "1 / 2 < fl (7 / 10)"
  "\<not> fl (33 / 100) < 0" "0 < fl (33 / 100)" "\<not> fl (4 / 10) \<le> fl (33 / 100)"
  "\<not> fl (4 / 10) \<le> 0" "(0::rat) < 1 / 2"
  "\<not> fl (7 / 10) \<le> 0" "\<not> fl (7 / 10) \<le> 1 / 2" "\<not> fl (7 / 10) \<le> fl (1 / 3)"
  "fl (7 / 8) = 7 / 8" "fl (7 / 10) \<le> 7 / 8" "fl (1 / 2) = 1 / 2"
  by code_simp+

lemma percent_ratio_ascii:
  assumes "decimal_digit B = ascii_digit"
  shows "percent_ratio B [48] = 0" "percent_ratio B [53, 48] = 1 / 2"
    "percent_ratio B [51, 51] = fl (33 / 100)"
  by (simp_all add: percent_ratio_def assms ascii_digit_def float_consts)

lemma builtins_fields:
  "str_lower ascii_builtins = ascii_lower" "decimal_digit ascii_builtins = ascii_digit"
  "int_max_str_digits ascii_builtins = 4300"
  "str_lower recovery_builtins = ascii_lower" "decimal_digit recovery_builtins = ascii_digit"
  "int_max_str_digits recovery_builtins = 4300"
  "json_loads recovery_builtins = test_json_loads"
  by (simp_all add: ascii_builtins_def recovery_builtins_def)

lemma parse_examples:
  assumes "decimal_digit B = ascii_digit" "int_max_str_digits B = 4300"
  shows "parse_line_range B (u ''Lines 1-1'') = Some (1, 1)"
    "parse_line_range B (u ''Lines 2-2'') = Some (2, 2)"
    "parse_line_range B (u ''Lines 3-3'') = Some (3, 3)"
    "parse_line_range B (u ''page 4'') = None"
  using assms by (simp_all add: ev)

lemma same_lines:
  "get_line_text honest_validator s e = get_line_text short_validator s e"
  "get_line_text lying_validator s e = get_line_text short_validator s e"
  "get_line_text sloppy_validator s e = get_line_text short_validator s e"
  "length (lines honest_validator) = 3" "length (lines lying_validator) = 3"
  "length (lines sloppy_validator) = 3" "length (lines short_validator) = 3"
  "length (lines quoted_validator) = 1"
  by (simp_all add: get_line_text_def ev3)

lemma range_names:
  "u ''Lines '' @ str_int 1 @ u ''-'' @ str_int 1 = u ''Lines 1-1''"
  "u ''Lines '' @ str_int 2 @ u ''-'' @ str_int 2 = u ''Lines 2-2''"
  "u ''Lines '' @ str_int 3 @ u ''-'' @ str_int 3 = u ''Lines 3-3''"
  "u ''Lines '' @ str_int 1 @ u ''-'' @ str_int 3 = u ''Lines 1-3''"
  by (simp_all add: ev)

lemma find_honest:
  "find_quote_in_text B honest_quote (get_line_text short_validator 2 2)
     = (True, u ''exact match'')"
  "find_quote_in_text B honest_quote (get_line_text short_validator 1 3)
     = (True, u ''exact match'')"
  by (simp_all add: ev evq ev3)

lemma find_daily:
  assumes "str_lower B = ascii_lower"
  shows "find_quote_in_text B (u ''Backups run daily at 2 AM.'')
           (get_line_text short_validator 3 3) = (False, u ''not found (only 0% match)'')"
    "find_quote_in_text B (u ''Backups run daily at 2 AM.'')
           (get_line_text short_validator 1 3) = (True, u ''exact match'')"
  by (simp_all add: ev evq ev3 assms float_consts fl_0)

lemma find_medium:
  assumes "str_lower B = ascii_lower"
  shows "find_quote_in_text B medium_quote (get_line_text short_validator 2 2)
           = (False, u ''not found (only 50% match)'')"
    "find_quote_in_text B medium_quote (get_line_text short_validator 1 3)
           = (False, u ''not found (only 50% match)'')"
  by (simp_all add: ev evq ev3 assms float_consts fl_7_10)

lemma find_two_quotes:
  assumes "str_lower B = ascii_lower"
  shows "find_quote_in_text B unrelated_quote (get_line_text short_validator 3 3)
           = (False, u ''not found (only 0% match)'')"
    "find_quote_in_text B unrelated_quote (get_line_text short_validator 1 3)
           = (False, u ''not found (only 0% match)'')"
    "find_quote_in_text B third_quote (get_line_text short_validator 3 3)
           = (False, u ''not found (only 33% match)'')"
    "find_quote_in_text B third_quote (get_line_text short_validator 1 3)
           = (False, u ''not found (only 33% match)'')"
  by (simp_all add: ev evq ev3 assms float_consts fl_0)

lemma find_replies:
  assumes "str_lower B = ascii_lower"
  shows "find_quote_in_text B absent_quote (get_line_text short_validator 1 3)
           = (False, u ''not found (only 50% match)'')"
    "find_quote_in_text B near_quote (get_line_text short_validator 1 3)
           = (True, u ''partial match (88%)'')"
  by (simp_all add: ev evq ev3 assms float_consts fl_7_10)

lemma find_curly:
  assumes "str_lower B = ascii_lower"
  shows "find_quote_in_text B curly_quote (get_line_text quoted_validator 1 1)
           = (False, u ''not found (only 0% match)'')"
  by (simp add: ev evq ev3 assms float_consts fl_0)

end
